theory Spec2Isabelle
  imports Complex_Main "HOL-Library.Log_Nat" "HOL-Library.Sublist"
begin

section \<open>Values and errors\<close>

text \<open>
  The hooks handle untyped JSON (\<open>err.body as any\<close>) and store whatever they extract
  from it, so JavaScript values are a datatype of their own.

  A JavaScript number is an IEEE 754 double: a finite value \<open>Num q\<close> (positive zero is
  \<open>Num 0\<close>), negative zero, an infinity or \<open>NaN\<close>. The values a program holds are the
  rationals \<open>m * 2 ^ e\<close> with \<open>\<bar>m\<bar> < 2 ^ 53\<close> and \<open>- 1074 \<le> e \<le> 971\<close>. Subtraction and
  multiplication take the exact result and round it to the nearest double, ties to the
  even significand; a magnitude rounded to \<open>2 ^ 1024\<close> or more becomes an infinity.
\<close>

datatype number = Num rat | NegZero | Infinity | NegInfinity | NaN

definition pow2 :: "int \<Rightarrow> rat" where
  "pow2 k = (if 0 \<le> k then 2 ^ nat k else 1 / 2 ^ nat (- k))"

text \<open>The binary exponent of a positive rational \<open>a\<close>: the \<open>e\<close> with \<open>2 ^ e \<le> a < 2 ^ (e + 1)\<close>.\<close>

definition exponent :: "rat \<Rightarrow> int" where
  "exponent a = (if 1 \<le> a then bitlen \<lfloor>a\<rfloor> - 1 else - bitlen (\<lceil>1 / a\<rceil> - 1))"

definition round_half_even :: "rat \<Rightarrow> int" where
  "round_half_even y =
     (let f = \<lfloor>y\<rfloor>; d = y - of_int f
      in if d < 1 / 2 then f else if 1 / 2 < d then f + 1 else if even f then f else f + 1)"

text \<open>
  Rounding a nonzero exact result: the spacing of doubles around \<open>x\<close> is
  \<open>2 ^ (e - 52)\<close>, with the exponent held at \<open>- 1022\<close> in the subnormal range.
\<close>

definition round_double :: "rat \<Rightarrow> number" where
  "round_double x =
     (let a = \<bar>x\<bar>;
          e = max (exponent a) (- 1022);
          q = pow2 (e - 52);
          r = of_int (round_half_even (a / q)) * q
      in if pow2 1024 \<le> r then (if x < 0 then NegInfinity else Infinity)
         else if r = 0 then (if x < 0 then NegZero else Num 0)
         else Num (if x < 0 then - r else r))"

fun sign_bit :: "number \<Rightarrow> bool" where
  "sign_bit (Num q) = (q < 0)"
| "sign_bit NegZero = True"
| "sign_bit NegInfinity = True"
| "sign_bit Infinity = False"
| "sign_bit NaN = False"

fun finite_value :: "number \<Rightarrow> rat option" where
  "finite_value (Num q) = Some q"
| "finite_value NegZero = Some 0"
| "finite_value _ = None"

text \<open>\<open>x - y\<close>. A zero difference is positive zero, except for \<open>-0 - 0\<close>.\<close>

definition number_minus :: "number \<Rightarrow> number \<Rightarrow> number" where
  "number_minus x y =
     (if x = NaN \<or> y = NaN then NaN
      else case (finite_value x, finite_value y) of
        (Some a, Some b) \<Rightarrow>
          if a = b then (if x = NegZero \<and> y = Num 0 then NegZero else Num 0)
          else round_double (a - b)
      | (Some a, None) \<Rightarrow> (if y = Infinity then NegInfinity else Infinity)
      | (None, Some b) \<Rightarrow> x
      | (None, None) \<Rightarrow> (if x = y then NaN else x))"

text \<open>\<open>x * y\<close>. The sign of a zero or infinite product is the product of the signs.\<close>

definition number_times :: "number \<Rightarrow> number \<Rightarrow> number" where
  "number_times x y =
     (if x = NaN \<or> y = NaN then NaN
      else case (finite_value x, finite_value y) of
        (Some a, Some b) \<Rightarrow>
          if a * b = 0 then (if sign_bit x \<noteq> sign_bit y then NegZero else Num 0)
          else round_double (a * b)
      | (Some a, None) \<Rightarrow>
          if a = 0 then NaN else if sign_bit x \<noteq> sign_bit y then NegInfinity else Infinity
      | (None, Some b) \<Rightarrow>
          if b = 0 then NaN else if sign_bit x \<noteq> sign_bit y then NegInfinity else Infinity
      | (None, None) \<Rightarrow> if sign_bit x \<noteq> sign_bit y then NegInfinity else Infinity)"

text \<open>A possibly missing number used as an operand: \<open>undefined\<close> converts to \<open>NaN\<close>.\<close>

fun to_number :: "number option \<Rightarrow> number" where
  "to_number None = NaN"
| "to_number (Some n) = n"

datatype js_value =
    Undefined
  | Null
  | JBool bool
  | JNum number
  | JStr string
  | JArr "js_value list"
  | JObj "(string \<times> js_value) list"

text \<open>\<open>v?.name\<close>: \<open>undefined\<close> unless \<open>v\<close> is an object that has the property.\<close>

fun optional_member :: "js_value \<Rightarrow> string \<Rightarrow> js_value" where
  "optional_member (JObj props) name =
     (case map_of props name of None \<Rightarrow> Undefined | Some v \<Rightarrow> v)"
| "optional_member _ name = Undefined"

fun isArray :: "js_value \<Rightarrow> bool" where
  "isArray (JArr _) = True"
| "isArray _ = False"

fun isString :: "js_value \<Rightarrow> bool" where
  "isString (JStr _) = True"
| "isString _ = False"

text \<open>
  An error thrown by the API client: \<open>ApiError\<close> carries \<open>status\<close>, \<open>body\<close> and
  \<open>message\<close>; \<open>isAxiosError\<close> is the outcome of \<open>err instanceof AxiosError\<close>.
\<close>

record api_error =
  status :: int
  body :: js_value
  message :: string
  isAxiosError :: bool

section \<open>The environment: localStorage, query clients, router\<close>

text \<open>
  \<open>localStorage\<close> is a map from keys to strings. A query client is a cache from query
  keys to entries; \<open>invalidateQueries\<close> marks every entry whose key extends the given key
  as invalidated and refetches those of them that are observed by an enabled observer,
  and \<open>removeQueries\<close> drops those entries. Several query clients may exist: \<open>provider\<close>
  is the one \<open>useQueryClient()\<close> returns. \<open>observed\<close> lists the queries whose refetch
  sends a request: those that components observe with \<open>enabled\<close> not false, a query still
  fetching its first data apart; each with its client, its key, and the request that its
  query function sends. Every call the hooks make into the environment, and every request
  a refetch sends, is recorded, in order, in \<open>calls\<close>. Query keys match segment by
  segment.
\<close>

type_synonym query_key = "js_value list"

record query_entry =
  data :: js_value
  isInvalidated :: bool

type_synonym query_client = "query_key \<rightharpoonup> query_entry"

type_synonym client_id = nat

datatype call =
    SetItem string string
  | RemoveItem string
  | InvalidateQueries client_id query_key
  | RemoveQueries client_id query_key
  | Navigate string
  | RouterInvalidate
  | Request string
  | SetError js_value

record app =
  localStorage :: "string \<rightharpoonup> string"
  queryClients :: "client_id \<Rightarrow> query_client"
  provider :: client_id
  observed :: "(client_id \<times> query_key \<times> string) list"
  error_state :: js_value
  calls :: "call list"

definition getItem :: "string \<Rightarrow> app \<Rightarrow> string option" where
  "getItem k s = localStorage s k"

definition setItem :: "string \<Rightarrow> string \<Rightarrow> app \<Rightarrow> app" where
  "setItem k v s = s\<lparr>localStorage := (localStorage s)(k \<mapsto> v), calls := calls s @ [SetItem k v]\<rparr>"

definition removeItem :: "string \<Rightarrow> app \<Rightarrow> app" where
  "removeItem k s = s\<lparr>localStorage := (localStorage s)(k := None), calls := calls s @ [RemoveItem k]\<rparr>"

definition useQueryClient :: "app \<Rightarrow> client_id" where
  "useQueryClient s = provider s"

definition mark_invalidated :: "query_key \<Rightarrow> query_client \<Rightarrow> query_client" where
  "mark_invalidated key c =
     (\<lambda>q. if prefix key q then map_option (\<lambda>e. e\<lparr>isInvalidated := True\<rparr>) (c q) else c q)"

definition drop_matching :: "query_key \<Rightarrow> query_client \<Rightarrow> query_client" where
  "drop_matching key c = (\<lambda>q. if prefix key q then None else c q)"

text \<open>The requests of the refetch: one for every observed query that the key matches and the cache holds.\<close>

definition refetches :: "client_id \<Rightarrow> query_key \<Rightarrow> app \<Rightarrow> string list" where
  "refetches c key s =
     [fn. (c', k, fn) \<leftarrow> observed s, c' = c \<and> prefix key k \<and> queryClients s c k \<noteq> None]"

definition invalidateQueries :: "client_id \<Rightarrow> query_key \<Rightarrow> app \<Rightarrow> app" where
  "invalidateQueries c key s =
     s\<lparr>queryClients := (queryClients s)(c := mark_invalidated key (queryClients s c)),
       calls := calls s @ InvalidateQueries c key # map Request (refetches c key s)\<rparr>"

definition removeQueries :: "client_id \<Rightarrow> query_key \<Rightarrow> app \<Rightarrow> app" where
  "removeQueries c key s =
     s\<lparr>queryClients := (queryClients s)(c := drop_matching key (queryClients s c)),
       calls := calls s @ [RemoveQueries c key]\<rparr>"

definition navigate :: "string \<Rightarrow> app \<Rightarrow> app" where
  "navigate to s = s\<lparr>calls := calls s @ [Navigate to]\<rparr>"

definition router_invalidate :: "app \<Rightarrow> app" where
  "router_invalidate s = s\<lparr>calls := calls s @ [RouterInvalidate]\<rparr>"

definition request :: "string \<Rightarrow> app \<Rightarrow> app" where
  "request name s = s\<lparr>calls := calls s @ [Request name]\<rparr>"

definition setError :: "js_value \<Rightarrow> app \<Rightarrow> app" where
  "setError v s = s\<lparr>error_state := v, calls := calls s @ [SetError v]\<rparr>"

fun navigations :: "call list \<Rightarrow> string list" where
  "navigations [] = []"
| "navigations (Navigate to # cs) = to # navigations cs"
| "navigations (_ # cs) = navigations cs"

fun requests :: "call list \<Rightarrow> string list" where
  "requests [] = []"
| "requests (Request name # cs) = name # requests cs"
| "requests (_ # cs) = requests cs"

section \<open>utils/auth.ts: the session store\<close>

definition getLocalAuthState :: "app \<Rightarrow> string option" where
  "getLocalAuthState s = getItem ''authState'' s"

definition updateLocalAuthState :: "string option \<Rightarrow> app \<Rightarrow> app" where
  "updateLocalAuthState newState s =
     (case newState of
        None \<Rightarrow> removeItem ''authState'' s
      | Some t \<Rightarrow> setItem ''authState'' t s)"

definition getAuthToken :: "app \<Rightarrow> string option" where
  "getAuthToken s = getLocalAuthState s"

definition isLoggedIn :: "app \<Rightarrow> bool" where
  "isLoggedIn s = (getAuthToken s \<noteq> None)"

section \<open>queries/users.ts\<close>

definition usersKeys_all :: query_key where
  "usersKeys_all = [JStr ''users'']"

definition usersKeys_current :: query_key where
  "usersKeys_current = usersKeys_all @ [JStr ''current'']"

section \<open>hooks/useCurrentUser.ts\<close>

text \<open>
  The revision that returns \<open>invalidate\<close> and \<open>remove\<close>. Both act on
  \<open>queryClient ?? useQueryClient()\<close> and on \<open>options?.queryKey || ["users", "current"]\<close>.
\<close>

definition useCurrentUser_client :: "client_id option \<Rightarrow> app \<Rightarrow> client_id" where
  "useCurrentUser_client queryClient s =
     (case queryClient of None \<Rightarrow> useQueryClient s | Some c \<Rightarrow> c)"

definition useCurrentUser_queryKey :: "query_key option \<Rightarrow> query_key" where
  "useCurrentUser_queryKey key =
     (case key of None \<Rightarrow> [JStr ''users'', JStr ''current''] | Some k \<Rightarrow> k)"

definition useCurrentUser_retry :: "int \<Rightarrow> api_error \<Rightarrow> bool" where
  "useCurrentUser_retry retryCount error =
     (if status error = 401 then False else retryCount \<le> 3)"

definition useCurrentUser_invalidate :: "query_key option \<Rightarrow> client_id option \<Rightarrow> app \<Rightarrow> app" where
  "useCurrentUser_invalidate key queryClient s =
     invalidateQueries (useCurrentUser_client queryClient s) (useCurrentUser_queryKey key) s"

definition useCurrentUser_remove :: "query_key option \<Rightarrow> client_id option \<Rightarrow> app \<Rightarrow> app" where
  "useCurrentUser_remove key queryClient s =
     removeQueries (useCurrentUser_client queryClient s) (useCurrentUser_queryKey key) s"

section \<open>hooks/useAuth.ts\<close>

text \<open>
  The reply of \<open>LoginService.loginAccessToken\<close> is an input of the model: the access
  token of a successful response, or the error the awaited call throws.
\<close>

datatype login_reply = AccessToken string | Failure api_error

definition login :: "login_reply \<Rightarrow> app \<Rightarrow> api_error option \<times> app" where
  "login reply s =
     (let s1 = request ''loginAccessToken'' s in
      case reply of
        Failure err \<Rightarrow> (Some err, s1)
      | AccessToken t \<Rightarrow> (None, updateLocalAuthState (Some t) s1))"

definition loginMutation_onSuccess :: "app \<Rightarrow> app" where
  "loginMutation_onSuccess s = navigate ''/'' s"

definition loginMutation_onError :: "api_error \<Rightarrow> app \<Rightarrow> app" where
  "loginMutation_onError err s =
     (let errDetail = optional_member (body err) ''detail'';
          errDetail = (if isAxiosError err then JStr (message err) else errDetail);
          errDetail = (if isArray errDetail then JStr ''Something went wrong'' else errDetail)
      in setError errDetail s)"

definition loginMutation :: "login_reply \<Rightarrow> app \<Rightarrow> app" where
  "loginMutation reply s =
     (case login reply s of
        (Some err, s1) \<Rightarrow> loginMutation_onError err s1
      | (None, s1) \<Rightarrow> loginMutation_onSuccess s1)"

definition logout :: "app \<Rightarrow> app" where
  "logout s =
     (let s1 = updateLocalAuthState None s;
          s2 = invalidateQueries (useQueryClient s) usersKeys_current s1
      in navigate ''/login'' s2)"

definition resetError :: "app \<Rightarrow> app" where
  "resetError s = setError Null s"

subsection \<open>The revision of useAuth.ts that keeps the token under \<open>access_token\<close>\<close>

text \<open>
  This revision exports its own \<open>isLoggedIn\<close>; its \<open>logout\<close> calls the \<open>remove\<close> it
  gets from \<open>useCurrentUser({ enabled: isLoggedIn() })\<close> and invalidates the router.
\<close>

definition isLoggedIn_rev :: "app \<Rightarrow> bool" where
  "isLoggedIn_rev s = (getItem ''access_token'' s \<noteq> None)"

definition loginMutation_rev :: "login_reply \<Rightarrow> app \<Rightarrow> app" where
  "loginMutation_rev reply s =
     (let s1 = request ''loginAccessToken'' s in
      case reply of
        Failure err \<Rightarrow> loginMutation_onError err s1
      | AccessToken t \<Rightarrow> router_invalidate (setItem ''access_token'' t s1))"

definition logout_rev :: "app \<Rightarrow> app" where
  "logout_rev s =
     (let s1 = removeItem ''access_token'' s;
          s2 = useCurrentUser_remove None None s1
      in router_invalidate s2)"

section \<open>hooks/useCustomQuery.ts\<close>

text \<open>
  A property of an options object is absent or present; a present \<open>enabled\<close> may hold
  \<open>undefined\<close> (\<open>None\<close>). The object spread \<open>{enabled: ..., retry: ..., ...options}\<close> lets
  every property present in \<open>options\<close> replace the one written before it.
\<close>

datatype 'a property = Absent | Present 'a

datatype retry_value =
    RetryBool bool
  | RetryNumber int
  | RetryFunction "int \<Rightarrow> api_error \<Rightarrow> bool"

record query_options =
  queryKey :: query_key
  enabled :: "bool option property"
  retry :: "retry_value property"

definition useCustomQuery_retry :: "int \<Rightarrow> api_error \<Rightarrow> bool" where
  "useCustomQuery_retry retryCount error =
     (if status error = 401 then False else retryCount \<le> 3)"

text \<open>
  How the query library uses the predicate: its failure count starts at 0; after a failed
  attempt it calls \<open>retry(failureCount, error)\<close> and, on \<open>true\<close>, adds one to the count
  and runs the query function again. \<open>attempts\<close> counts the runs of the query function,
  given what each successive run returns: \<open>None\<close> for a result, \<open>Some err\<close> for an error.
\<close>

fun attempts :: "(int \<Rightarrow> api_error \<Rightarrow> bool) \<Rightarrow> int \<Rightarrow> api_error option list \<Rightarrow> nat" where
  "attempts retryFn failureCount [] = 0"
| "attempts retryFn failureCount (None # outcomes) = 1"
| "attempts retryFn failureCount (Some err # outcomes) =
     (if retryFn failureCount err then Suc (attempts retryFn (failureCount + 1) outcomes) else 1)"

text \<open>
  The options handed to \<open>useQuery\<close>. \<open>isLoggedIn'\<close> stands for the \<open>isLoggedIn\<close> that the
  hook imports from useAuth.ts, \<open>logout'\<close> below for the \<open>logout\<close> of \<open>useAuth()\<close>.
\<close>

definition useCustomQuery_options :: "(app \<Rightarrow> bool) \<Rightarrow> query_options \<Rightarrow> app \<Rightarrow> query_options" where
  "useCustomQuery_options isLoggedIn' options s =
     options\<lparr>
       enabled := (case enabled options of
                     Absent \<Rightarrow> Present (Some (isLoggedIn' s))
                   | Present v \<Rightarrow> Present v),
       retry := (case retry options of
                   Absent \<Rightarrow> Present (RetryFunction useCustomQuery_retry)
                 | Present r \<Rightarrow> Present r)\<rparr>"

text \<open>
  What \<open>useQuery(options, queryClient)\<close> does with these: it observes the entry for
  \<open>queryKey\<close> in \<open>queryClient\<close>, or in the provider's client when none is passed, and does
  not fetch while \<open>enabled\<close> is \<open>false\<close>.
\<close>

definition useQuery_client :: "client_id option \<Rightarrow> app \<Rightarrow> client_id" where
  "useQuery_client queryClient s =
     (case queryClient of None \<Rightarrow> useQueryClient s | Some c \<Rightarrow> c)"

definition useQuery_entry :: "query_options \<Rightarrow> client_id option \<Rightarrow> app \<Rightarrow> query_entry option" where
  "useQuery_entry options queryClient s =
     queryClients s (useQuery_client queryClient s) (queryKey options)"

definition useQuery_disabled :: "query_options \<Rightarrow> bool" where
  "useQuery_disabled options = (enabled options = Present (Some False))"

text \<open>\<open>invalidate\<close> and \<open>remove\<close> close over \<open>_queryClient = useQueryClient()\<close>.\<close>

definition useCustomQuery_invalidate :: "query_options \<Rightarrow> app \<Rightarrow> app" where
  "useCustomQuery_invalidate options s =
     invalidateQueries (useQueryClient s) (queryKey options) s"

definition useCustomQuery_remove :: "query_options \<Rightarrow> app \<Rightarrow> app" where
  "useCustomQuery_remove options s =
     removeQueries (useQueryClient s) (queryKey options) s"

text \<open>
  One run of the effect, with the steps of the promise chain
  \<open>invalidate().then(() => remove()).then(logout)\<close> taken in their order.
\<close>

definition useCustomQuery_effect ::
  "(app \<Rightarrow> bool) \<Rightarrow> (app \<Rightarrow> app) \<Rightarrow> query_options \<Rightarrow> api_error option \<Rightarrow> app \<Rightarrow> app" where
  "useCustomQuery_effect isLoggedIn' logout' options error s =
     (if map_option status error = Some 401 \<and> isLoggedIn' s then
        logout' (useCustomQuery_remove options (useCustomQuery_invalidate options s))
      else if map_option status error = Some 401 \<and> \<not> isLoggedIn' s then
        useCustomQuery_remove options s
      else s)"

text \<open>
  The result object of \<open>useQuery\<close> is an input: its \<open>error\<close> and its remaining
  properties. The hook returns \<open>{ error, ...query, invalidate }\<close>, an object that
  maps property names to values.
\<close>

datatype member = Value js_value | Error "api_error option" | Callable "app \<Rightarrow> app"

record query_result =
  error :: "api_error option"
  query :: "string \<rightharpoonup> member"

definition useCustomQuery_return :: "query_options \<Rightarrow> query_result \<Rightarrow> string \<rightharpoonup> member" where
  "useCustomQuery_return options result =
     ([''error'' \<mapsto> Error (error result)] ++ query result)
       (''invalidate'' \<mapsto> Callable (useCustomQuery_invalidate options))"

section \<open>hooks/useItems.ts\<close>

record QueryOptions =
  limit :: number
  page :: "number option"
  skip :: "number option"

record items_query_params =
  params_skip :: number
  params_limit :: number

definition getItemsQueryParams :: "QueryOptions \<Rightarrow> items_query_params" where
  "getItemsQueryParams options =
     \<lparr>params_skip =
        (case skip options of
           Some sk \<Rightarrow> sk
         | None \<Rightarrow> number_times (number_minus (to_number (page options)) (Num 1)) (limit options)),
      params_limit = limit options\<rparr>"

section \<open>Example states, options and errors\<close>

definition signed_out :: app where
  "signed_out = \<lparr>localStorage = Map.empty, queryClients = (\<lambda>c. Map.empty), provider = 0,
     observed = [], error_state = Null, calls = []\<rparr>"

definition current_user_entry :: query_entry where
  "current_user_entry = \<lparr>data = JObj [(''email'', JStr ''a@b.c'')], isInvalidated = False\<rparr>"

text \<open>
  A signed-in state after a render: the current user is cached in the provider's client
  and observed by \<open>useCurrentUser({ enabled: isLoggedIn() })\<close>.
\<close>

definition signed_in :: app where
  "signed_in = \<lparr>localStorage = [''authState'' \<mapsto> ''token''],
     queryClients = (\<lambda>c. if c = 0 then [usersKeys_current \<mapsto> current_user_entry] else Map.empty),
     provider = 0, observed = [(0, usersKeys_current, ''readUserMe'')],
     error_state = Null, calls = []\<rparr>"

text \<open>
  A signed-out state after a render: the current user is still cached, but its observer is
  disabled.
\<close>

definition signed_out_cached :: app where
  "signed_out_cached = \<lparr>localStorage = Map.empty,
     queryClients = (\<lambda>c. if c = 0 then [usersKeys_current \<mapsto> current_user_entry] else Map.empty),
     provider = 0, observed = [], error_state = Null, calls = []\<rparr>"

definition items_options :: query_options where
  "items_options = \<lparr>queryKey = [JStr ''items''], enabled = Absent, retry = Absent\<rparr>"

definition current_user_options :: query_options where
  "current_user_options = \<lparr>queryKey = usersKeys_current, enabled = Absent, retry = Absent\<rparr>"

definition items_entry :: query_entry where
  "items_entry = \<lparr>data = JArr [], isInvalidated = False\<rparr>"

text \<open>
  A signed-in state with a second query client, number 1, that holds the entry of the
  items query; the provider's client, number 0, is empty.
\<close>

definition two_clients :: app where
  "two_clients = \<lparr>localStorage = [''authState'' \<mapsto> ''token''],
     queryClients = (\<lambda>c. if c = 1 then [[JStr ''items''] \<mapsto> items_entry] else Map.empty),
     provider = 0, observed = [(1, [JStr ''items''], ''readItems'')],
     error_state = Null, calls = []\<rparr>"

definition unauthorized :: api_error where
  "unauthorized = \<lparr>status = 401, body = JObj [(''detail'', JStr ''Could not validate credentials'')],
     message = ''Unauthorized'', isAxiosError = False\<rparr>"

definition server_error :: api_error where
  "server_error = \<lparr>status = 500, body = JStr ''Internal Server Error'',
     message = ''Internal Server Error'', isAxiosError = False\<rparr>"

definition network_error :: api_error where
  "network_error = \<lparr>status = 0, body = Undefined, message = ''Network Error'', isAxiosError = True\<rparr>"

definition validation_error :: api_error where
  "validation_error = \<lparr>status = 422,
     body = JObj [(''detail'', JArr [JObj [(''msg'', JStr ''field required'')]])],
     message = ''Unprocessable Entity'', isAxiosError = False\<rparr>"

definition bad_credentials :: api_error where
  "bad_credentials = \<lparr>status = 400, body = JObj [(''detail'', JStr ''Incorrect email or password'')],
     message = ''Bad Request'', isAxiosError = False\<rparr>"

definition failed_result :: query_result where
  "failed_result = \<lparr>error = Some unauthorized,
     query = [''data'' \<mapsto> Value Undefined, ''isLoading'' \<mapsto> Value (JBool False),
              ''isError'' \<mapsto> Value (JBool True)]\<rparr>"

section \<open>Auxiliary facts\<close>

lemmas env_defs =
  getItem_def setItem_def removeItem_def useQueryClient_def mark_invalidated_def
  drop_matching_def refetches_def invalidateQueries_def removeQueries_def navigate_def
  router_invalidate_def request_def setError_def

lemmas auth_defs =
  getLocalAuthState_def updateLocalAuthState_def getAuthToken_def isLoggedIn_def

lemmas hook_defs =
  useCustomQuery_effect_def useCustomQuery_remove_def useCustomQuery_invalidate_def
  useQuery_entry_def useQuery_client_def useCustomQuery_options_def useQuery_disabled_def

lemmas current_user_defs =
  useCurrentUser_remove_def useCurrentUser_client_def useCurrentUser_queryKey_def

lemma requests_append: "requests (xs @ ys) = requests xs @ requests ys"
  by (induction xs rule: requests.induct) simp_all

lemma navigations_append: "navigations (xs @ ys) = navigations xs @ navigations ys"
  by (induction xs rule: navigations.induct) simp_all

lemma requests_map_Request: "requests (map Request names) = names"
  by (induction names) simp_all

lemma navigations_map_Request: "navigations (map Request names) = []"
  by (induction names) simp_all

lemma mark_invalidated_twice:
  "mark_invalidated key (mark_invalidated key c) = mark_invalidated key c"
proof
  fix q
  show "mark_invalidated key (mark_invalidated key c) q = mark_invalidated key c q"
    by (cases "c q") (simp_all add: mark_invalidated_def)
qed

lemma mark_invalidated_self:
  "mark_invalidated key c key = map_option (\<lambda>e. e\<lparr>isInvalidated := True\<rparr>) (c key)"
  by (simp add: mark_invalidated_def)

lemma mark_invalidated_eq_None: "mark_invalidated key c q = None \<longleftrightarrow> c q = None"
  by (simp add: mark_invalidated_def)

lemma drop_matching_self: "drop_matching key c key = None"
  by (simp add: drop_matching_def)

lemma isLoggedIn_localStorage: "isLoggedIn s \<longleftrightarrow> localStorage s ''authState'' \<noteq> None"
  by (simp add: auth_defs env_defs)

text \<open>A refetch depends on the observers and on which keys the cache holds, on nothing else.\<close>

lemma refetches_cong:
  assumes "observed t = observed s"
    and "\<And>k. queryClients t c k = None \<longleftrightarrow> queryClients s c k = None"
  shows "refetches c key t = refetches c key s"
  using assms by (simp add: refetches_def)

text \<open>What \<open>logout\<close> does to each part of the state.\<close>

lemma logout_localStorage: "localStorage (logout s) = (localStorage s)(''authState'' := None)"
  by (simp add: logout_def auth_defs env_defs Let_def)

lemma logout_provider: "provider (logout s) = provider s"
  by (simp add: logout_def auth_defs env_defs Let_def)

lemma logout_observed: "observed (logout s) = observed s"
  by (simp add: logout_def auth_defs env_defs Let_def)

lemma logout_queryClients:
  "queryClients (logout s)
     = (queryClients s)
         (provider s := mark_invalidated usersKeys_current (queryClients s (provider s)))"
  by (simp add: logout_def auth_defs env_defs Let_def cong: if_cong)

lemma logout_calls:
  "calls (logout s)
     = calls s @ [RemoveItem ''authState'', InvalidateQueries (provider s) usersKeys_current]
         @ map Request (refetches (provider s) usersKeys_current s) @ [Navigate ''/login'']"
  by (simp add: logout_def auth_defs env_defs Let_def)

lemma logout_refetches:
  "refetches (provider s) usersKeys_current (logout s) = refetches (provider s) usersKeys_current s"
  by (rule refetches_cong) (simp_all add: logout_observed logout_queryClients mark_invalidated_eq_None)

text \<open>What the wrapper's \<open>invalidate\<close> and \<open>remove\<close> do to each part of the state.\<close>

lemma useCustomQuery_invalidate_fields:
  "localStorage (useCustomQuery_invalidate options s) = localStorage s"
  "provider (useCustomQuery_invalidate options s) = provider s"
  "observed (useCustomQuery_invalidate options s) = observed s"
  "queryClients (useCustomQuery_invalidate options s)
     = (queryClients s)
         (provider s := mark_invalidated (queryKey options) (queryClients s (provider s)))"
  "calls (useCustomQuery_invalidate options s)
     = calls s @ InvalidateQueries (provider s) (queryKey options)
         # map Request (refetches (provider s) (queryKey options) s)"
  by (simp_all add: useCustomQuery_invalidate_def env_defs)

lemma useCustomQuery_remove_fields:
  "localStorage (useCustomQuery_remove options s) = localStorage s"
  "provider (useCustomQuery_remove options s) = provider s"
  "observed (useCustomQuery_remove options s) = observed s"
  "queryClients (useCustomQuery_remove options s)
     = (queryClients s)
         (provider s := drop_matching (queryKey options) (queryClients s (provider s)))"
  "calls (useCustomQuery_remove options s)
     = calls s @ [RemoveQueries (provider s) (queryKey options)]"
  by (simp_all add: useCustomQuery_remove_def env_defs)

text \<open>Rounding leaves the integers up to \<open>2 ^ 53\<close> as they are.\<close>

lemma round_half_even_of_int: "round_half_even (of_int m) = m"
  by (simp add: round_half_even_def)

lemma pow2_nonneg: "0 \<le> k \<Longrightarrow> pow2 k = 2 ^ nat k"
  by (simp add: pow2_def)

lemma pow2_neg: "k \<le> 0 \<Longrightarrow> pow2 k = 1 / 2 ^ nat (- k)"
  by (simp add: pow2_def)

lemma exponent_of_int: "0 < n \<Longrightarrow> exponent (of_int n) = bitlen n - 1"
  by (simp add: exponent_def)

lemma safe_integer_exponent:
  assumes "0 < n" and "n \<le> 2 ^ 53"
  shows "0 \<le> bitlen n - 1" and "bitlen n - 1 \<le> 53" and "2 ^ nat (bitlen n - 1) \<le> n"
proof -
  from assms(1) show "2 ^ nat (bitlen n - 1) \<le> n"
    using bitlen_bounds [of n] by simp
  from assms(1) have "bitlen n \<noteq> 0"
    by (simp add: bitlen_eq_zero_iff)
  with bitlen_nonneg [of n] show "0 \<le> bitlen n - 1"
    by simp
  have "n < 2 ^ nat 54"
    using assms(2) by simp
  then have "bitlen n \<le> 54"
    by (simp add: bitlen_le_iff_power)
  then show "bitlen n - 1 \<le> 53"
    by simp
qed

lemma scaled_back:
  assumes "0 < n" and "n \<le> 2 ^ 53" and e: "e = bitlen n - 1"
  shows "rat_of_int (round_half_even (of_int n / pow2 (e - 52))) * pow2 (e - 52) = of_int n"
proof (cases "e \<le> 52")
  case True
  define k where "k = nat (52 - e)"
  from True have q: "pow2 (e - 52) = 1 / 2 ^ k"
    by (simp add: pow2_neg k_def)
  have "rat_of_int n / pow2 (e - 52) = of_int (n * 2 ^ k)"
    by (simp add: q)
  then have "round_half_even (of_int n / pow2 (e - 52)) = n * 2 ^ k"
    by (simp only: round_half_even_of_int)
  then show ?thesis
    by (simp add: q)
next
  case False
  with safe_integer_exponent [OF assms(1,2)] e have e53: "e = 53"
    by simp
  with safe_integer_exponent(3) [OF assms(1,2)] e have "2 ^ 53 \<le> n"
    by simp
  with assms(2) have n: "n = 2 ^ 53"
    by simp
  have "rat_of_int n / pow2 (e - 52) = of_int (2 ^ 52)"
    by (simp add: e53 n pow2_def)
  then have "round_half_even (of_int n / pow2 (e - 52)) = 2 ^ 52"
    by (simp only: round_half_even_of_int)
  then show ?thesis
    by (simp add: e53 n pow2_def)
qed

lemma round_double_of_int:
  assumes "0 < n" and "n \<le> 2 ^ 53"
  shows "round_double (of_int n) = Num (of_int n)"
proof -
  define e where "e = bitlen n - 1"
  have expo: "max (exponent \<bar>rat_of_int n\<bar>) (- 1022) = e"
    using assms safe_integer_exponent(1) [OF assms]
    by (simp add: e_def exponent_of_int flip: of_int_abs)
  have r: "rat_of_int (round_half_even (\<bar>of_int n\<bar> / pow2 (e - 52))) * pow2 (e - 52) = of_int n"
    using scaled_back [OF assms e_def] assms(1) by simp
  have "rat_of_int n \<le> 2 ^ 53"
    using assms(2) by (metis of_int_le_iff of_int_numeral of_int_power)
  also have "\<dots> < 2 ^ 1024"
    by (rule power_strict_increasing) simp_all
  finally have small: "\<not> pow2 1024 \<le> rat_of_int n"
    by (simp add: pow2_nonneg)
  from assms(1) have pos: "\<not> rat_of_int n < 0" "rat_of_int n \<noteq> 0"
    by simp_all
  show ?thesis
    unfolding round_double_def Let_def expo r
    using small pos by simp
qed


text \<open>With the wrapper's predicate the query function runs at most five times.\<close>

lemma attempts_bound:
  "0 \<le> failureCount \<Longrightarrow>
     attempts useCustomQuery_retry failureCount outcomes \<le> nat (max 1 (5 - failureCount))"
proof (induction outcomes arbitrary: failureCount)
  case Nil
  then show ?case by simp
next
  case (Cons outcome outcomes)
  show ?case
  proof (cases outcome)
    case None
    then show ?thesis by simp
  next
    case (Some err)
    show ?thesis
    proof (cases "useCustomQuery_retry failureCount err")
      case False
      with Some show ?thesis by simp
    next
      case True
      then have "failureCount \<le> 3"
        by (simp add: useCustomQuery_retry_def split: if_splits)
      moreover from Cons.prems have "0 \<le> failureCount + 1"
        by simp
      then have "attempts useCustomQuery_retry (failureCount + 1) outcomes
                   \<le> nat (max 1 (5 - (failureCount + 1)))"
        by (rule Cons.IH)
      ultimately show ?thesis
        using Some True Cons.prems by simp
    qed
  qed
qed

section \<open>The reaction of useCustomQuery to a 401\<close>

text \<open>
  When the query lives in the provider's client, one run of the effect on a 401 does, for a
  signed-in session, the calls of invalidate, remove and logout in this order, each
  invalidation followed by the requests of its refetch; afterwards the entry is gone and
  the session is signed out. For a session that is already signed out it only removes the
  entry.
\<close>

lemma useCustomQuery_effect_401:
  fixes options :: query_options and err :: "api_error option" and s :: app
  defines "s' \<equiv> useCustomQuery_effect isLoggedIn logout options err s"
    and "removed \<equiv> useCustomQuery_remove options (useCustomQuery_invalidate options s)"
  assumes unauthorized: "map_option status err = Some 401"
    and own: "useQuery_client queryClient s = provider s"
  shows "isLoggedIn s \<Longrightarrow>
           calls s' = calls s @ [InvalidateQueries (provider s) (queryKey options)]
                        @ map Request (refetches (provider s) (queryKey options) s)
                        @ [RemoveQueries (provider s) (queryKey options),
                           RemoveItem ''authState'',
                           InvalidateQueries (provider s) usersKeys_current]
                        @ map Request (refetches (provider s) usersKeys_current removed)
                        @ [Navigate ''/login'']
           \<and> navigations (calls s') = navigations (calls s) @ [''/login'']
           \<and> useQuery_entry options queryClient s' = None
           \<and> \<not> isLoggedIn s'"
    and "\<not> isLoggedIn s \<Longrightarrow>
           calls s' = calls s @ [RemoveQueries (provider s) (queryKey options)]
           \<and> useQuery_entry options queryClient s' = None
           \<and> localStorage s' = localStorage s"
proof -
  have client: "useQuery_client queryClient t = provider s" if "provider t = provider s" for t
    using own that by (cases queryClient) (simp_all add: useQuery_client_def useQueryClient_def)
  have prov: "provider removed = provider s"
    by (simp add: removed_def useCustomQuery_remove_fields useCustomQuery_invalidate_fields)
  {
    assume "isLoggedIn s"
    with unauthorized have s': "s' = logout removed"
      by (simp add: s'_def removed_def useCustomQuery_effect_def)
    have gone: "useQuery_entry options queryClient s' = None"
      by (simp add: s' useQuery_entry_def client logout_provider prov logout_queryClients
          mark_invalidated_eq_None)
        (simp add: removed_def useCustomQuery_remove_fields useCustomQuery_invalidate_fields
          drop_matching_self)
    have trace: "calls s' = calls s @ [InvalidateQueries (provider s) (queryKey options)]
                        @ map Request (refetches (provider s) (queryKey options) s)
                        @ [RemoveQueries (provider s) (queryKey options),
                           RemoveItem ''authState'',
                           InvalidateQueries (provider s) usersKeys_current]
                        @ map Request (refetches (provider s) usersKeys_current removed)
                        @ [Navigate ''/login'']"
      by (simp add: s' logout_calls prov)
        (simp add: removed_def useCustomQuery_remove_fields useCustomQuery_invalidate_fields)
    have once: "navigations (calls s') = navigations (calls s) @ [''/login'']"
      by (simp add: trace navigations_append navigations_map_Request)
    have out: "\<not> isLoggedIn s'"
      by (simp add: s' isLoggedIn_localStorage logout_localStorage)
    from trace once gone out
    show "calls s' = calls s @ [InvalidateQueries (provider s) (queryKey options)]
                        @ map Request (refetches (provider s) (queryKey options) s)
                        @ [RemoveQueries (provider s) (queryKey options),
                           RemoveItem ''authState'',
                           InvalidateQueries (provider s) usersKeys_current]
                        @ map Request (refetches (provider s) usersKeys_current removed)
                        @ [Navigate ''/login'']
           \<and> navigations (calls s') = navigations (calls s) @ [''/login'']
           \<and> useQuery_entry options queryClient s' = None
           \<and> \<not> isLoggedIn s'"
      by blast
  next
    assume "\<not> isLoggedIn s"
    with unauthorized have s': "s' = useCustomQuery_remove options s"
      by (simp add: s'_def useCustomQuery_effect_def)
    show "calls s' = calls s @ [RemoveQueries (provider s) (queryKey options)]
           \<and> useQuery_entry options queryClient s' = None
           \<and> localStorage s' = localStorage s"
      by (simp add: s' useQuery_entry_def client useCustomQuery_remove_fields drop_matching_self)
  }
qed

text \<open>The same with the \<open>isLoggedIn\<close> and \<open>logout\<close> of the other revision of useAuth.ts.\<close>

lemma useCustomQuery_effect_401_rev:
  assumes "map_option status err = Some 401" and "useQuery_client queryClient s = provider s"
  shows "isLoggedIn_rev s \<Longrightarrow>
           calls (useCustomQuery_effect isLoggedIn_rev logout_rev options err s)
             = calls s @ [InvalidateQueries (provider s) (queryKey options)]
                 @ map Request (refetches (provider s) (queryKey options) s)
                 @ [RemoveQueries (provider s) (queryKey options),
                    RemoveItem ''access_token'',
                    RemoveQueries (provider s) [JStr ''users'', JStr ''current''],
                    RouterInvalidate]
           \<and> useQuery_entry options queryClient
                (useCustomQuery_effect isLoggedIn_rev logout_rev options err s) = None
           \<and> \<not> isLoggedIn_rev (useCustomQuery_effect isLoggedIn_rev logout_rev options err s)"
    and "\<not> isLoggedIn_rev s \<Longrightarrow>
           calls (useCustomQuery_effect isLoggedIn_rev logout_rev options err s)
             = calls s @ [RemoveQueries (provider s) (queryKey options)]
           \<and> useQuery_entry options queryClient
                (useCustomQuery_effect isLoggedIn_rev logout_rev options err s) = None
           \<and> localStorage (useCustomQuery_effect isLoggedIn_rev logout_rev options err s)
               = localStorage s"
  using assms
  by (auto simp add: hook_defs logout_rev_def isLoggedIn_rev_def current_user_defs env_defs
      Let_def split: option.splits)

text \<open>
  C1. The wrapper is called with a query client of its own (number 1) that is not the
  provider's, the session is signed in and the query fails with status 401. The effect
  invalidates and removes in the provider's client and logs out once, so the session is
  signed out afterwards, but the entry that the query observes is still in its cache.
\<close>

theorem useCustomQuery_401_other_client:
  "isLoggedIn two_clients
   \<and> useQuery_entry items_options (Some 1) two_clients = Some items_entry
   \<and> calls (useCustomQuery_effect isLoggedIn logout items_options (Some unauthorized) two_clients)
       = [InvalidateQueries 0 [JStr ''items''], RemoveQueries 0 [JStr ''items''],
          RemoveItem ''authState'', InvalidateQueries 0 [JStr ''users'', JStr ''current''],
          Navigate ''/login'']
   \<and> useQuery_entry items_options (Some 1)
        (useCustomQuery_effect isLoggedIn logout items_options (Some unauthorized) two_clients)
       = Some items_entry
   \<and> \<not> isLoggedIn
        (useCustomQuery_effect isLoggedIn logout items_options (Some unauthorized) two_clients)"
  by (simp add: hook_defs logout_def auth_defs env_defs Let_def two_clients_def items_options_def
      unauthorized_def usersKeys_current_def usersKeys_all_def)

section \<open>logout\<close>

text \<open>
  The \<open>logout\<close> of the other revision of useAuth.ts: it removes the token stored under
  \<open>access_token\<close>, removes the current-user entry and invalidates the router; it does not
  navigate.
\<close>

lemma logout_rev_effects:
  "\<not> isLoggedIn_rev (logout_rev s)
   \<and> queryClients (logout_rev s) (provider s) [JStr ''users'', JStr ''current''] = None
   \<and> calls (logout_rev s)
       = calls s @ [RemoveItem ''access_token'',
                    RemoveQueries (provider s) [JStr ''users'', JStr ''current''], RouterInvalidate]
   \<and> navigations (calls (logout_rev s)) = navigations (calls s)"
  by (simp add: logout_rev_def isLoggedIn_rev_def current_user_defs env_defs Let_def
      navigations_append)

text \<open>
  C2, as amended. From every state, \<open>logout()\<close> removes the session token, invalidates the
  cached current-user entry, which stays in the cache marked as invalidated when there is
  one, and navigates to \<open>/login\<close> exactly once. Its calls are these three, with the
  requests of the refetch after the invalidation.
\<close>

theorem logout_effects:
  "getLocalAuthState (logout s) = None
   \<and> \<not> isLoggedIn (logout s)
   \<and> queryClients (logout s) (provider s) usersKeys_current
       = map_option (\<lambda>e. e\<lparr>isInvalidated := True\<rparr>) (queryClients s (provider s) usersKeys_current)
   \<and> calls (logout s)
       = calls s @ [RemoveItem ''authState'', InvalidateQueries (provider s) usersKeys_current]
           @ map Request (refetches (provider s) usersKeys_current s) @ [Navigate ''/login'']
   \<and> navigations (calls (logout s)) = navigations (calls s) @ [''/login'']"
  by (simp add: getLocalAuthState_def getItem_def isLoggedIn_localStorage logout_localStorage
      logout_queryClients mark_invalidated_self logout_calls navigations_append
      navigations_map_Request)

text \<open>
  C2, as stated, fails: after \<open>logout()\<close> in a signed-in state the current-user entry is
  still cached, only invalidated; and the revision that does remove the entry records no
  navigation.
\<close>

theorem logout_not_as_claimed:
  "queryClients (logout signed_in) (provider signed_in) usersKeys_current
     = Some (current_user_entry\<lparr>isInvalidated := True\<rparr>)
   \<and> navigations (calls (logout_rev signed_in)) = []"
  by (simp add: logout_def logout_rev_def current_user_defs auth_defs env_defs Let_def
      signed_in_def)

section \<open>The retry predicate\<close>

text \<open>
  C3, as amended. The retry predicate of the wrapper answers \<open>false\<close> for every error
  with status 401, whatever the retry count, so such an error is never retried; for every
  other status it answers \<open>true\<close> exactly while the retry count is at most 3. Counted
  from 0 as the library counts, that permits up to 4 retries: the query function runs at
  most 5 times, and 5 times when every run fails with another status. The predicate of
  \<open>useCurrentUser\<close> is the same function.
\<close>

theorem retry_predicate:
  "(status err = 401 \<longrightarrow>
      \<not> useCustomQuery_retry retryCount err
      \<and> attempts useCustomQuery_retry 0 (Some err # outcomes) = 1)
   \<and> (status err \<noteq> 401 \<longrightarrow>
      useCustomQuery_retry retryCount err = (retryCount \<le> 3)
      \<and> attempts useCustomQuery_retry 0 [Some err, Some err, Some err, Some err, Some err] = 5)
   \<and> attempts useCustomQuery_retry 0 outcomes \<le> 5
   \<and> useCurrentUser_retry retryCount err = useCustomQuery_retry retryCount err"
proof -
  have "attempts useCustomQuery_retry 0 outcomes \<le> nat (max 1 (5 - 0))"
    by (rule attempts_bound) simp
  then have "attempts useCustomQuery_retry 0 outcomes \<le> 5"
    by simp
  then show ?thesis
    by (simp add: useCustomQuery_retry_def useCurrentUser_retry_def)
qed

text \<open>
  Witness for C3, as amended: a 401 at count 0 followed by more failures, and a 500 at
  counts 3 and 4.
\<close>

theorem retry_predicate_witness:
  "\<not> useCustomQuery_retry 0 unauthorized
   \<and> attempts useCustomQuery_retry 0 [Some unauthorized, Some unauthorized, None] = 1
   \<and> useCustomQuery_retry 3 server_error
   \<and> \<not> useCustomQuery_retry 4 server_error
   \<and> attempts useCustomQuery_retry 0 [Some server_error, Some server_error, None] = 3"
  using retry_predicate [of unauthorized 0 "[Some unauthorized, None]"]
    retry_predicate [of server_error 3] retry_predicate [of server_error 4]
  by (simp add: unauthorized_def server_error_def useCustomQuery_retry_def)

text \<open>
  C3, as stated, fails: when every run fails with status 500 the query function runs 5
  times, the first attempt and 4 retries, which is more than 3 additional attempts.
\<close>

theorem four_retries:
  "attempts useCustomQuery_retry 0
     [Some server_error, Some server_error, Some server_error, Some server_error,
      Some server_error, Some server_error] = 5
   \<and> \<not> attempts useCustomQuery_retry 0
     [Some server_error, Some server_error, Some server_error, Some server_error,
      Some server_error, Some server_error] \<le> 1 + 3"
  by (simp add: useCustomQuery_retry_def server_error_def)

section \<open>The \<open>enabled\<close> gate\<close>

text \<open>
  C4, as amended. When the caller's options have no \<open>enabled\<close> property, the query is
  created with \<open>enabled\<close> equal to \<open>isLoggedIn()\<close>, so it is disabled exactly when no token
  is stored; when the options have an \<open>enabled\<close> property, its value is the one used.
\<close>

theorem enabled_gate:
  "(enabled options = Absent \<longrightarrow>
      enabled (useCustomQuery_options isLoggedIn options s) = Present (Some (isLoggedIn s))
      \<and> useQuery_disabled (useCustomQuery_options isLoggedIn options s)
          = (getLocalAuthState s = None))
   \<and> (enabled options = Present v \<longrightarrow>
      enabled (useCustomQuery_options isLoggedIn options s) = Present v)"
  by (simp add: hook_defs auth_defs)

text \<open>Witness for C4, as amended: no token, once without \<open>enabled\<close>, once with \<open>enabled: undefined\<close>.\<close>

theorem enabled_gate_witness:
  "useQuery_disabled (useCustomQuery_options isLoggedIn items_options signed_out)
   \<and> enabled (useCustomQuery_options isLoggedIn (items_options\<lparr>enabled := Present None\<rparr>) signed_out)
       = Present None"
  using enabled_gate [where options = items_options and s = signed_out]
    enabled_gate [where options = "items_options\<lparr>enabled := Present None\<rparr>"
      and v = None and s = signed_out]
  by (simp add: items_options_def signed_out_def auth_defs env_defs)

text \<open>
  C4, as stated, fails: with no token stored and the caller's options holding
  \<open>enabled: true\<close>, the query is not created disabled.
\<close>

theorem enabled_overridden:
  "\<not> isLoggedIn signed_out
   \<and> \<not> useQuery_disabled
        (useCustomQuery_options isLoggedIn (items_options\<lparr>enabled := Present (Some True)\<rparr>) signed_out)"
  by (simp add: hook_defs auth_defs env_defs items_options_def signed_out_def)

section \<open>The session store\<close>

text \<open>
  C5. For every token \<open>t\<close>, after \<open>updateLocalAuthState(t)\<close> the store returns \<open>t\<close> and
  \<open>isLoggedIn()\<close> is true; after \<open>updateLocalAuthState(null)\<close> the store returns
  \<open>null\<close> and \<open>isLoggedIn()\<close> is false; clearing a second time leaves the storage as
  the first clearing left it.
\<close>

theorem session_store_set_get_clear:
  "getLocalAuthState (updateLocalAuthState (Some t) s) = Some t
   \<and> isLoggedIn (updateLocalAuthState (Some t) s)
   \<and> getLocalAuthState (updateLocalAuthState None s) = None
   \<and> \<not> isLoggedIn (updateLocalAuthState None s)
   \<and> localStorage (updateLocalAuthState None (updateLocalAuthState None s))
       = localStorage (updateLocalAuthState None s)"
  by (simp add: auth_defs env_defs)

section \<open>Page parameters\<close>



text \<open>
  Beyond \<open>2 ^ 53\<close> the product is rounded: page \<open>2 ^ 53\<close> with limit 3 gives
  27021597764222972, not 27021597764222973. A page of 1.5 with limit 5 gives 2.5.
\<close>

lemma below_overflow: "r \<le> 2 ^ 60 \<Longrightarrow> \<not> pow2 1024 \<le> r"
proof -
  assume "r \<le> 2 ^ 60"
  also have "(2::rat) ^ 60 < 2 ^ 1024"
    by (rule power_strict_increasing) simp_all
  finally show ?thesis
    by (simp add: pow2_def)
qed

lemma round_double_exact:
  assumes "0 < x" and "exponent x = e" and "- 1022 \<le> e"
    and "x / pow2 (e - 52) = of_int m" and "x \<le> 2 ^ 60"
  shows "round_double x = Num x"
proof -
  have expo: "max (exponent \<bar>x\<bar>) (- 1022) = e"
    using assms(1-3) by simp
  have "pow2 (e - 52) \<noteq> 0"
    by (simp add: pow2_def)
  with assms(4) have r: "of_int (round_half_even (\<bar>x\<bar> / pow2 (e - 52))) * pow2 (e - 52) = x"
    using assms(1) by (simp add: round_half_even_of_int nonzero_divide_eq_eq)
  show ?thesis
    unfolding round_double_def Let_def expo r
    using assms(1) below_overflow [OF assms(5)] by simp
qed

lemma round_double_beyond_53: "round_double 27021597764222973 = Num 27021597764222972"
proof -
  have e: "exponent \<bar>27021597764222973\<bar> = 54"
    by (simp add: exponent_def compute_bitlen)
  have f: "\<lfloor>27021597764222973 / 4 :: rat\<rfloor> = 6755399441055743"
    by (rule floor_unique) simp_all
  have m: "round_half_even (27021597764222973 / pow2 2) = 6755399441055743"
    unfolding round_half_even_def Let_def pow2_def by (simp add: f)
  have small: "\<not> pow2 1024 \<le> (27021597764222972::rat)"
    by (rule below_overflow) simp
  show ?thesis
    unfolding round_double_def Let_def e
    using small by (simp add: m) (simp add: pow2_def)
qed

lemma getItemsQueryParams_rounds:
  "getItemsQueryParams \<lparr>limit = Num 3, page = Some (Num 9007199254740992), skip = None\<rparr>
     = \<lparr>params_skip = Num 27021597764222972, params_limit = Num 3\<rparr>"
  "getItemsQueryParams \<lparr>limit = Num 5, page = Some (Num (3 / 2)), skip = None\<rparr>
     = \<lparr>params_skip = Num (5 / 2), params_limit = Num 5\<rparr>"
proof -
  have "round_double (of_int 9007199254740991) = Num (of_int 9007199254740991)"
    by (rule round_double_of_int) simp_all
  then have "number_minus (Num 9007199254740992) (Num 1) = Num 9007199254740991"
    by (simp add: number_minus_def)
  then show "getItemsQueryParams \<lparr>limit = Num 3, page = Some (Num 9007199254740992), skip = None\<rparr>
     = \<lparr>params_skip = Num 27021597764222972, params_limit = Num 3\<rparr>"
    by (simp add: getItemsQueryParams_def number_times_def round_double_beyond_53)
next
  have "round_double (1 / 2) = Num (1 / 2)"
  proof (rule round_double_exact [where e = "- 1" and m = "2 ^ 52"])
    show "exponent (1 / 2) = - 1"
      by (simp add: exponent_def compute_bitlen)
    show "(1 / 2) / pow2 (- 1 - 52) = rat_of_int (2 ^ 52)"
      by (simp add: pow2_def)
  qed simp_all
  then have minus: "number_minus (Num (3 / 2)) (Num 1) = Num (1 / 2)"
    by (simp add: number_minus_def)
  have "\<lfloor>5 / 2 :: rat\<rfloor> = 2"
    by (rule floor_unique) simp_all
  then have "round_double (5 / 2) = Num (5 / 2)"
  proof (intro round_double_exact [where e = 1 and m = "5 * 2 ^ 50"])
    assume "\<lfloor>5 / 2 :: rat\<rfloor> = 2"
    then show "exponent (5 / 2) = 1"
      by (simp add: exponent_def compute_bitlen)
    show "(5 / 2) / pow2 (1 - 52) = rat_of_int (5 * 2 ^ 50)"
      by (simp add: pow2_def)
  qed simp_all
  then show "getItemsQueryParams \<lparr>limit = Num 5, page = Some (Num (3 / 2)), skip = None\<rparr>
     = \<lparr>params_skip = Num (5 / 2), params_limit = Num 5\<rparr>"
    by (simp add: getItemsQueryParams_def minus number_times_def)
qed

section \<open>A failed login\<close>

text \<open>
  A failed login leaves localStorage as it was and navigates nowhere. The error field is
  set to the message of a transport error; otherwise to \<open>Something went wrong\<close> when the
  body's \<open>detail\<close> is an array; otherwise to the \<open>detail\<close> when that is a string.
  \<open>resetError()\<close> sets the field back to \<open>null\<close>. Both revisions of useAuth.ts behave
  alike on a failure.
\<close>

lemma login_failure:
  "localStorage (loginMutation (Failure err) s) = localStorage s
   \<and> navigations (calls (loginMutation (Failure err) s)) = navigations (calls s)
   \<and> (isAxiosError err \<longrightarrow> error_state (loginMutation (Failure err) s) = JStr (message err))
   \<and> (\<not> isAxiosError err \<and> isArray (optional_member (body err) ''detail'') \<longrightarrow>
        error_state (loginMutation (Failure err) s) = JStr ''Something went wrong'')
   \<and> (\<not> isAxiosError err \<and> optional_member (body err) ''detail'' = JStr d \<longrightarrow>
        error_state (loginMutation (Failure err) s) = JStr d)
   \<and> error_state (resetError (loginMutation (Failure err) s)) = Null
   \<and> loginMutation_rev (Failure err) s = loginMutation (Failure err) s"
  by (simp add: loginMutation_def loginMutation_rev_def login_def loginMutation_onError_def
      resetError_def env_defs Let_def navigations_append)

text \<open>A transport error, a validation error with an array, and rejected credentials.\<close>

lemma login_failure_examples:
  "error_state (loginMutation (Failure network_error) signed_out) = JStr ''Network Error''
   \<and> error_state (loginMutation (Failure validation_error) signed_out)
       = JStr ''Something went wrong''
   \<and> error_state (loginMutation (Failure bad_credentials) signed_out)
       = JStr ''Incorrect email or password''
   \<and> localStorage (loginMutation (Failure bad_credentials) signed_out) = Map.empty"
  using login_failure [of network_error signed_out]
    login_failure [of validation_error signed_out]
    login_failure [of bad_credentials signed_out "''Incorrect email or password''"]
  by (simp add: network_error_def validation_error_def bad_credentials_def signed_out_def)

text \<open>
  C7. The login fails with an error whose body has no \<open>detail\<close>: a status 500 with a plain
  text body, not a transport error. The token stays absent and nothing navigates, but the
  error field, declared \<open>string | null\<close>, is set to \<open>undefined\<close>, which is not a string.
\<close>

theorem login_failure_undefined:
  "error_state (loginMutation (Failure server_error) signed_out) = Undefined
   \<and> \<not> isString (error_state (loginMutation (Failure server_error) signed_out))"
  by (simp add: loginMutation_def login_def loginMutation_onError_def
      env_defs Let_def server_error_def signed_out_def)

section \<open>What useCustomQuery returns\<close>

text \<open>
  C8, as amended. The returned object has \<open>invalidate\<close>, the \<open>error\<close> of the query and
  every other property of the query result unchanged; it adds no \<open>remove\<close>. For a query
  that lives in the provider's client, \<open>invalidate()\<close> marks the entry for the query's
  key as invalidated, and the wrapper's internal \<open>remove()\<close> drops it.
\<close>

theorem returned_members:
  "useCustomQuery_return options result ''invalidate''
     = Some (Callable (useCustomQuery_invalidate options))
   \<and> (query result ''error'' = None \<longrightarrow>
        useCustomQuery_return options result ''error'' = Some (Error (error result)))
   \<and> (name \<noteq> ''invalidate'' \<and> name \<noteq> ''error'' \<longrightarrow>
        useCustomQuery_return options result name = query result name)
   \<and> (useQuery_client queryClient s = provider s \<longrightarrow>
        useQuery_entry options queryClient (useCustomQuery_invalidate options s)
          = map_option (\<lambda>e. e\<lparr>isInvalidated := True\<rparr>) (useQuery_entry options queryClient s)
        \<and> useQuery_entry options queryClient (useCustomQuery_remove options s) = None)"
  by (auto simp add: useCustomQuery_return_def hook_defs env_defs map_add_def split: option.splits)

text \<open>
  Witness for C8, as amended: the result of a failed query, and the current-user query in
  the provider's client.
\<close>

theorem returned_members_witness:
  "useCustomQuery_return items_options failed_result ''error'' = Some (Error (Some unauthorized))
   \<and> useCustomQuery_return items_options failed_result ''isError'' = Some (Value (JBool True))
   \<and> useQuery_entry current_user_options None
        (useCustomQuery_invalidate current_user_options signed_in)
       = Some (current_user_entry\<lparr>isInvalidated := True\<rparr>)
   \<and> useQuery_entry current_user_options None
        (useCustomQuery_remove current_user_options signed_in) = None"
  using returned_members [where options = items_options and result = failed_result
      and name = "''isError''" and queryClient = "Some 0" and s = signed_in]
    returned_members [where options = current_user_options
      and result = failed_result and name = "''isError''" and queryClient = None and s = signed_in]
  by (simp add: failed_result_def signed_in_def current_user_options_def hook_defs env_defs
      usersKeys_current_def usersKeys_all_def)

text \<open>
  C8, as stated, fails: the object returned for a query result without a \<open>remove\<close>
  property has no \<open>remove\<close> property either.
\<close>

theorem remove_not_returned:
  "useCustomQuery_return items_options failed_result ''remove'' = None"
  by (simp add: useCustomQuery_return_def failed_result_def map_add_def)

section \<open>Logging out twice\<close>

text \<open>
  C9, as amended. A second \<open>logout()\<close> performs the same steps as the first: it removes
  the token, invalidates the current-user entry, with the refetch that follows, and
  navigates to \<open>/login\<close>. It leaves localStorage and every query cache as the first one
  left them, with no token stored, and when no token is stored it leaves localStorage as
  it is. It sends no request when the cached current-user query has no enabled observer.
\<close>

theorem logout_idempotent:
  "localStorage (logout (logout s)) = localStorage (logout s)
   \<and> queryClients (logout (logout s)) = queryClients (logout s)
   \<and> getLocalAuthState (logout (logout s)) = None
   \<and> calls (logout s)
       = calls s @ [RemoveItem ''authState'', InvalidateQueries (provider s) usersKeys_current]
           @ map Request (refetches (provider s) usersKeys_current s) @ [Navigate ''/login'']
   \<and> calls (logout (logout s))
       = calls (logout s)
           @ [RemoveItem ''authState'', InvalidateQueries (provider s) usersKeys_current]
           @ map Request (refetches (provider s) usersKeys_current s) @ [Navigate ''/login'']
   \<and> (refetches (provider s) usersKeys_current s = [] \<longrightarrow>
        requests (calls (logout (logout s))) = requests (calls s))
   \<and> (\<not> isLoggedIn s \<longrightarrow> localStorage (logout s) = localStorage s)"
proof -
  have storage: "localStorage (logout (logout s)) = localStorage (logout s)"
    by (simp add: logout_localStorage)
  have cache: "queryClients (logout (logout s)) = queryClients (logout s)"
    by (simp add: logout_queryClients logout_provider mark_invalidated_twice)
  have token: "getLocalAuthState (logout (logout s)) = None"
    by (simp add: getLocalAuthState_def getItem_def logout_localStorage)
  have first: "calls (logout s)
       = calls s @ [RemoveItem ''authState'', InvalidateQueries (provider s) usersKeys_current]
           @ map Request (refetches (provider s) usersKeys_current s) @ [Navigate ''/login'']"
    by (rule logout_calls)
  have second: "calls (logout (logout s))
       = calls (logout s)
           @ [RemoveItem ''authState'', InvalidateQueries (provider s) usersKeys_current]
           @ map Request (refetches (provider s) usersKeys_current s) @ [Navigate ''/login'']"
    using logout_calls [of "logout s"] by (simp only: logout_provider logout_refetches)
  have quiet: "requests (calls (logout (logout s))) = requests (calls s)"
    if "refetches (provider s) usersKeys_current s = []"
    by (simp add: second first that requests_append)
  have untouched: "localStorage (logout s) = localStorage s" if "\<not> isLoggedIn s"
  proof
    fix k
    from that have "localStorage s ''authState'' = None"
      by (simp add: isLoggedIn_localStorage)
    then show "localStorage (logout s) k = localStorage s k"
      by (simp add: logout_localStorage)
  qed
  from storage cache token first second quiet untouched show ?thesis
    by blast
qed

text \<open>
  Witness for C9, as amended: logging out of a signed-out state whose cache still holds
  the current user, with no enabled observer.
\<close>

theorem logout_idempotent_witness:
  "refetches (provider signed_out_cached) usersKeys_current signed_out_cached = []
   \<and> \<not> isLoggedIn signed_out_cached
   \<and> requests (calls (logout (logout signed_out_cached))) = []
   \<and> localStorage (logout signed_out_cached) = localStorage signed_out_cached
   \<and> queryClients (logout (logout signed_out_cached)) 0 usersKeys_current
       = Some (current_user_entry\<lparr>isInvalidated := True\<rparr>)
   \<and> calls (logout (logout signed_out_cached))
       = [RemoveItem ''authState'', InvalidateQueries 0 usersKeys_current, Navigate ''/login'',
          RemoveItem ''authState'', InvalidateQueries 0 usersKeys_current, Navigate ''/login'']"
proof -
  have quiet: "refetches (provider signed_out_cached) usersKeys_current signed_out_cached = []"
    by (simp add: refetches_def signed_out_cached_def)
  have out: "\<not> isLoggedIn signed_out_cached"
    by (simp add: isLoggedIn_localStorage signed_out_cached_def)
  have entry: "queryClients (logout signed_out_cached) 0 usersKeys_current
                 = Some (current_user_entry\<lparr>isInvalidated := True\<rparr>)"
    by (simp add: logout_queryClients mark_invalidated_self signed_out_cached_def)
  from logout_idempotent [of signed_out_cached] quiet out entry show ?thesis
    by (simp add: signed_out_cached_def)
qed

text \<open>
  C9, as stated, fails: after a first \<open>logout()\<close> in the signed-in state no token is
  stored, and a second \<open>logout()\<close>, before any render has disabled the observer of the
  current-user query, refetches that query: it sends a request.
\<close>

theorem logout_refetches_again:
  "\<not> isLoggedIn (logout signed_in)
   \<and> requests (calls (logout signed_in)) = [''readUserMe'']
   \<and> requests (calls (logout (logout signed_in))) = [''readUserMe'', ''readUserMe'']"
  by (simp add: logout_def auth_defs env_defs Let_def signed_in_def usersKeys_current_def
      usersKeys_all_def)

section \<open>The empty token\<close>

text \<open>
  C10. \<open>isLoggedIn()\<close> is false exactly when nothing is stored under the key; the empty
  string is a stored value like any other, so after \<open>updateLocalAuthState("")\<close> the store
  holds the empty string and \<open>isLoggedIn()\<close> is true.
\<close>

theorem isLoggedIn_iff_stored:
  "isLoggedIn s = (localStorage s ''authState'' \<noteq> None)
   \<and> getLocalAuthState (updateLocalAuthState (Some t) s) = Some t
   \<and> isLoggedIn (updateLocalAuthState (Some t) s)
   \<and> getLocalAuthState (updateLocalAuthState (Some '''') s) = Some ''''
   \<and> isLoggedIn (updateLocalAuthState (Some '''') s)"
  by (simp add: auth_defs env_defs)

end
